theory Spec2Isabelle
  imports Complex_Main "HOL-Library.Sublist"
begin

section \<open>Inventory service: stock ledger and idempotency log\<close>

text \<open>
  The inventory service keeps two tables behind Prisma: \<open>product\<close> (looked up by its id,
  carrying \<open>name\<close> and \<open>stock\<close>) and \<open>idempotencyLog\<close> (one row per processed
  \<open>orderId\<close>, looked up with \<open>findUnique\<close>, so \<open>orderId\<close> is a unique column).
  Stock and quantities are JavaScript numbers (IEEE doubles) holding integers; the
  model carries their integer values in \<open>int\<close>. Comparing two such values is exact;
  subtracting them rounds the exact difference to the nearest double.
\<close>

record product =
  name :: string
  stock :: int

record inv_db =
  products :: "string \<rightharpoonup> product"
  idempotencyLog :: "string list"

text \<open>The database calls issued by the inventory code, in the order they are awaited.\<close>

datatype db_op =
  Log_findUnique string
  | Product_findUnique string
  | Product_update string int
  | Log_create string

datatype error = Error string

record deduct_reply =
  message :: string
  success :: bool

text \<open>
  Rounding an integer to the nearest double, ties to the even significand: up to
  \<open>2^53 = 9007199254740992\<close> in magnitude every integer is a double; above, the
  significand keeps 53 bits and \<open>drop_count\<close> low bits are rounded away. Magnitudes of
  \<open>2^1024\<close> and more, which no finite double holds, are outside the model.
\<close>

function drop_count :: "nat \<Rightarrow> nat" where
  "drop_count a = (if a < 9007199254740992 then 0 else Suc (drop_count (a div 2)))"
  by pat_completeness auto
termination
  by (relation "measure (\<lambda>a. a)") auto

declare drop_count.simps [simp del]

definition round_double :: "int \<Rightarrow> int" where
  "round_double x =
     (let a = nat \<bar>x\<bar>;
          e = drop_count a;
          q = a div 2 ^ e;
          r = a mod 2 ^ e;
          q' = (if 2 ^ e < 2 * r \<or> (2 * r = 2 ^ e \<and> odd q) then q + 1 else q)
      in sgn x * int (q' * 2 ^ e))"

text \<open>JavaScript's \<open>a - b\<close> on two integer-valued numbers.\<close>

definition js_sub :: "int \<Rightarrow> int \<Rightarrow> int" where
  "js_sub a b = round_double (a - b)"

text \<open>
  The callback handed to \<open>prisma.$transaction\<close> in \<open>deductInventory\<close>: it reads the
  product, throws when the product is missing or its stock is below the quantity,
  otherwise updates the stock and creates the log row. \<open>create\<close> on an \<open>orderId\<close>
  that is already logged violates the unique column and throws.
\<close>

definition deduct_tx ::
  "string \<Rightarrow> int \<Rightarrow> string \<Rightarrow> inv_db \<Rightarrow> (error + inv_db) \<times> db_op list" where
  "deduct_tx productId quantity orderId tx =
     (case products tx productId of
        None \<Rightarrow>
          (Inl (Error ''Insufficient stock or product not found''),
           [Product_findUnique productId])
      | Some p \<Rightarrow>
          if stock p < quantity then
            (Inl (Error ''Insufficient stock or product not found''),
             [Product_findUnique productId])
          else
            let tx1 = tx\<lparr>products := (products tx)(productId \<mapsto> p\<lparr>stock := js_sub (stock p) quantity\<rparr>)\<rparr>;
                ops = [Product_findUnique productId,
                       Product_update productId (js_sub (stock p) quantity),
                       Log_create orderId]
            in if orderId \<in> set (idempotencyLog tx1) then
                 (Inl (Error ''Unique constraint failed on the fields: (orderId)''), ops)
               else
                 (Inr (tx1\<lparr>idempotencyLog := idempotencyLog tx1 @ [orderId]\<rparr>), ops))"

text \<open>
  \<open>prisma.$transaction\<close>: the writes of the callback are committed when it returns and
  rolled back when it throws; the exception is passed on to the caller.
\<close>

definition transaction ::
  "(inv_db \<Rightarrow> (error + inv_db) \<times> db_op list) \<Rightarrow> inv_db \<Rightarrow> (error + unit) \<times> inv_db \<times> db_op list" where
  "transaction body db =
     (case body db of
        (Inl e, ops) \<Rightarrow> (Inl e, db, ops)
      | (Inr db', ops) \<Rightarrow> (Inr (), db', ops))"

text \<open>
  \<open>deductInventory\<close>: the idempotency check first, then the transaction. The result is
  the reply or the thrown error, the database afterwards, and the database calls made.
\<close>

definition deductInventory ::
  "string \<Rightarrow> int \<Rightarrow> string \<Rightarrow> inv_db \<Rightarrow> (error + deduct_reply) \<times> inv_db \<times> db_op list" where
  "deductInventory productId quantity orderId db =
     (if orderId \<in> set (idempotencyLog db) then
        (Inr \<lparr>message = ''Stock already deducted (Idempotent)'', success = True\<rparr>,
         db, [Log_findUnique orderId])
      else
        case transaction (deduct_tx productId quantity orderId) db of
          (Inl e, db', ops) \<Rightarrow> (Inl e, db', Log_findUnique orderId # ops)
        | (Inr u, db', ops) \<Rightarrow>
            (Inr \<lparr>message = ''Stock deducted'', success = True\<rparr>,
             db', Log_findUnique orderId # ops))"

text \<open>The stock of a product as the ledger holds it (\<open>None\<close>: no such product).\<close>

definition stock_of :: "inv_db \<Rightarrow> string \<Rightarrow> int option" where
  "stock_of db productId = map_option stock (products db productId)"

text \<open>
  The request body of \<open>POST /inventory/deduct\<close>. A field that is absent from the JSON
  is \<open>None\<close>; \<open>gremlin\<close> records whether the field is exactly \<open>true\<close>.
\<close>

record deduct_body =
  d_productId :: "string option"
  d_quantity :: "int option"
  d_orderId :: "string option"
  d_gremlin :: bool

section \<open>Order service: orders, broker channel, responses\<close>

text \<open>
  An order row; \<open>status\<close> holds the string literals the code writes
  (\<open>PENDING\<close>, \<open>CONFIRMED\<close>, \<open>QUEUED\<close>, \<open>COMPLETED\<close>, \<open>FAILED\<close>).
\<close>

record order =
  ord_id :: string
  ord_productId :: string
  ord_quantity :: int
  ord_status :: string

text \<open>A value caught by \<open>catch\<close>: the handler reads its \<open>code\<close> and \<open>message\<close>.\<close>

record js_error =
  err_code :: "string option"
  err_message :: string

text \<open>The JSON bodies the two services send.\<close>

datatype json_body =
  ErrorJson string
  | DeductJson deduct_reply
  | OrderJson order
  | QueuedJson string string string
  | FailedJson string string string

record response =
  res_status :: nat
  res_json :: json_body

text \<open>
  The module variable \<open>channel\<close>: undefined until the broker connection is made, then a
  channel object that is open (\<open>Channel True\<close>) or has been closed (\<open>Channel False\<close>).
\<close>

datatype chan = NoChannel | Channel bool

datatype jsval = JNull | JBool bool | JNum int | JStr string

text \<open>The parsed messages of \<open>inventory_queue\<close> and \<open>order_completion_queue\<close>.\<close>

record work_item =
  w_productId :: string
  w_quantity :: int
  w_orderId :: string

record completion_event =
  ev_orderId :: string
  ev_status :: "jsval option"
  ev_message :: string

text \<open>
  Both services with the broker between them: the order table, the order service's
  \<open>channel\<close>, the two queues (a message stays in its queue until it is acknowledged),
  and the inventory database.
\<close>

record system =
  orders :: "string \<rightharpoonup> order"
  channel :: chan
  inventory_queue :: "work_item list"
  order_completion_queue :: "completion_event list"
  inventory :: inv_db

text \<open>
  \<open>prisma.order.create\<close> with the row id the database generates (\<open>oid\<close>), and
  \<open>prisma.order.update\<close>, which throws when no row has the id.
\<close>

definition order_create ::
  "string \<Rightarrow> string \<Rightarrow> int \<Rightarrow> (string \<rightharpoonup> order) \<Rightarrow> js_error + order \<times> (string \<rightharpoonup> order)" where
  "order_create oid pid qty os =
     (if oid \<in> dom os then
        Inl \<lparr>err_code = Some ''P2002'', err_message = ''Unique constraint failed on the fields: (id)''\<rparr>
      else
        let order = \<lparr>ord_id = oid, ord_productId = pid, ord_quantity = qty, ord_status = ''PENDING''\<rparr>
        in Inr (order, os(oid \<mapsto> order)))"

definition order_update ::
  "string \<Rightarrow> string \<Rightarrow> (string \<rightharpoonup> order) \<Rightarrow> js_error + order \<times> (string \<rightharpoonup> order)" where
  "order_update oid st os =
     (case os oid of
        None \<Rightarrow> Inl \<lparr>err_code = Some ''P2025'', err_message = ''Record to update not found.''\<rparr>
      | Some order \<Rightarrow> Inr (order\<lparr>ord_status := st\<rparr>, os(oid \<mapsto> order\<lparr>ord_status := st\<rparr>)))"

text \<open>\<open>String.prototype.includes\<close>: the argument occurs as a contiguous substring.\<close>

fun str_includes :: "string \<Rightarrow> string \<Rightarrow> bool" where
  "str_includes [] sub = (sub = [])"
| "str_includes (c # cs) sub = (prefix sub (c # cs) \<or> str_includes cs sub)"

text \<open>Decimal rendering of a status code, as string concatenation with a number gives.\<close>

function decimal :: "nat \<Rightarrow> string" where
  "decimal n =
     (if n < 10 then [''0123456789'' ! n]
      else decimal (n div 10) @ [''0123456789'' ! (n mod 10)])"
  by pat_completeness auto
termination
  by (relation "measure (\<lambda>n. n)") auto

declare decimal.simps [simp del]

section \<open>The inventory endpoint and the HTTP call to it\<close>

text \<open>
  \<open>POST /inventory/deduct\<close>: 400 when a field is falsy; otherwise the optional
  gremlin sleep of 5000 ms and \<open>deductInventory\<close>, answered with 200 and the reply or
  with 400 and the message of the thrown error. The third component is the time the
  handler sleeps before it works.
\<close>

definition post_inventory_deduct :: "deduct_body \<Rightarrow> inv_db \<Rightarrow> response \<times> inv_db \<times> nat" where
  "post_inventory_deduct b db =
     (case (d_productId b, d_quantity b, d_orderId b) of
        (Some productId, Some quantity, Some orderId) \<Rightarrow>
          if productId = [] \<or> quantity = 0 \<or> orderId = [] then
            (\<lparr>res_status = 400, res_json = ErrorJson ''Missing productId, quantity, or orderId''\<rparr>, db, 0)
          else
            let delay = (if d_gremlin b then 5000 else 0) in
            (case deductInventory productId quantity orderId db of
               (Inr result, db', ops) \<Rightarrow>
                 (\<lparr>res_status = 200, res_json = DeductJson result\<rparr>, db', delay)
             | (Inl (Error m), db', ops) \<Rightarrow>
                 (\<lparr>res_status = 400, res_json = ErrorJson m\<rparr>, db', delay))
      | _ \<Rightarrow>
          (\<lparr>res_status = 400, res_json = ErrorJson ''Missing productId, quantity, or orderId''\<rparr>, db, 0))"

text \<open>
  What \<open>axios.post\<close> with \<open>timeout: 2000\<close> hands to the order service for a response
  that arrives after \<open>elapsed\<close> milliseconds: past the timeout it rejects with code
  \<open>ECONNABORTED\<close> and a message naming the timeout; a status outside 2xx rejects with
  the status in the message; a 2xx status resolves.
\<close>

datatype axios_outcome = Resolved nat | Rejected js_error

definition timeout_ms :: nat where
  "timeout_ms = 2000"

definition axios_post :: "nat \<Rightarrow> response \<Rightarrow> axios_outcome" where
  "axios_post elapsed res =
     (if timeout_ms < elapsed then
        Rejected \<lparr>err_code = Some ''ECONNABORTED'',
                  err_message = ''timeout of '' @ decimal timeout_ms @ ''ms exceeded''\<rparr>
      else if 200 \<le> res_status res \<and> res_status res < 300 then
        Resolved (res_status res)
      else
        Rejected \<lparr>err_code = Some (if res_status res < 500 then ''ERR_BAD_REQUEST'' else ''ERR_BAD_RESPONSE''),
                  err_message = ''Request failed with status code '' @ decimal (res_status res)\<rparr>)"

section \<open>Order placement\<close>

text \<open>The request body of \<open>POST /orders\<close>.\<close>

record order_body =
  b_productId :: "string option"
  b_quantity :: "int option"
  b_gremlin :: bool

text \<open>
  \<open>channel.sendToQueue('inventory_queue', ...)\<close> of the order service: the message is
  appended to the queue; on a channel that has been closed the call throws.
\<close>

definition sendToQueue :: "work_item \<Rightarrow> system \<Rightarrow> js_error + system" where
  "sendToQueue msg s =
     (case channel s of
        Channel True \<Rightarrow> Inr (s\<lparr>inventory_queue := inventory_queue s @ [msg]\<rparr>)
      | _ \<Rightarrow> Inl \<lparr>err_code = None, err_message = ''Channel closed''\<rparr>)"

text \<open>
  The inner \<open>try\<close> of the timeout branch: with a channel, enqueue the work item, set the
  order to \<open>QUEUED\<close> and answer 202; without one, throw. \<open>Inl\<close> is what the inner
  \<open>catch\<close> receives, together with the state reached when it was thrown.
\<close>

definition queue_fallback ::
  "order \<Rightarrow> string \<Rightarrow> int \<Rightarrow> system \<Rightarrow> (js_error + response) \<times> system" where
  "queue_fallback order productId quantity s =
     (if channel s \<noteq> NoChannel then
        (case sendToQueue \<lparr>w_productId = productId, w_quantity = quantity, w_orderId = ord_id order\<rparr> s of
           Inl e \<Rightarrow> (Inl e, s)
         | Inr s1 \<Rightarrow>
             (case order_update (ord_id order) ''QUEUED'' (orders s1) of
                Inl e \<Rightarrow> (Inl e, s1)
              | Inr (queuedOrder, os) \<Rightarrow>
                  (Inr \<lparr>res_status = 202,
                        res_json = QueuedJson ''Order timed out, queued for async processing''
                                     ''QUEUED'' (ord_id order)\<rparr>,
                   s1\<lparr>orders := os\<rparr>)))
      else
        (Inl \<lparr>err_code = None, err_message = ''Critical: Service Unavailable (Queue Down)''\<rparr>, s))"

text \<open>
  The end of the outer \<open>catch\<close>: set the order to \<open>FAILED\<close> and answer 503 with
  \<open>errorMessage\<close>. Nothing catches a throw of this update: then no response is sent
  (\<open>None\<close>).
\<close>

definition general_failure :: "string \<Rightarrow> order \<Rightarrow> system \<Rightarrow> response option \<times> system" where
  "general_failure errorMessage order s =
     (case order_update (ord_id order) ''FAILED'' (orders s) of
        Inl e \<Rightarrow> (None, s)
      | Inr (failedOrder, os) \<Rightarrow>
          (Some \<lparr>res_status = 503, res_json = FailedJson errorMessage (ord_id order) ''FAILED''\<rparr>,
           s\<lparr>orders := os\<rparr>))"

text \<open>
  The outer \<open>catch (error)\<close>: \<open>errorMessage\<close> is set once and never reassigned; a timeout
  (by code or by message) tries the queue and returns from there on success.
\<close>

definition is_timeout :: "js_error \<Rightarrow> bool" where
  "is_timeout e = (err_code e = Some ''ECONNABORTED'' \<or> str_includes (err_message e) ''timeout'')"

definition catch_inventory_error ::
  "js_error \<Rightarrow> order \<Rightarrow> string \<Rightarrow> int \<Rightarrow> system \<Rightarrow> response option \<times> system" where
  "catch_inventory_error e order productId quantity s =
     (let errorMessage = ''Order failed due to inventory issue'' in
      if is_timeout e then
        (case queue_fallback order productId quantity s of
           (Inr res, s1) \<Rightarrow> (Some res, s1)
         | (Inl queueError, s1) \<Rightarrow> general_failure errorMessage order s1)
      else general_failure errorMessage order s)"

text \<open>
  \<open>POST /orders\<close>. \<open>oid\<close> is the id the database gives the new row and \<open>latency\<close> the
  milliseconds the inventory call takes apart from the gremlin sleep. The handler
  validates, creates the order as \<open>PENDING\<close>, calls the inventory endpoint through
  \<open>axios_post\<close>, and on status 200 confirms the order and answers 201 with it; every
  throw inside the \<open>try\<close> goes to \<open>catch_inventory_error\<close>. The timeout only ends the
  caller's wait: the inventory service still handles the request it was sent.
\<close>

definition post_orders :: "order_body \<Rightarrow> string \<Rightarrow> nat \<Rightarrow> system \<Rightarrow> response option \<times> system" where
  "post_orders b oid latency s =
     (case (b_productId b, b_quantity b) of
        (Some productId, Some quantity) \<Rightarrow>
          if productId = [] \<or> quantity = 0 then
            (Some \<lparr>res_status = 400, res_json = ErrorJson ''Missing productId or quantity''\<rparr>, s)
          else
            (case order_create oid productId quantity (orders s) of
               Inl e \<Rightarrow> (None, s)
             | Inr (order, os) \<Rightarrow>
                 let s1 = s\<lparr>orders := os\<rparr>;
                     (res, inv, delay) =
                        post_inventory_deduct
                          \<lparr>d_productId = Some productId, d_quantity = Some quantity,
                           d_orderId = Some (ord_id order), d_gremlin = b_gremlin b\<rparr>
                          (inventory s1);
                     s2 = s1\<lparr>inventory := inv\<rparr>
                 in (case axios_post (latency + delay) res of
                       Resolved st \<Rightarrow>
                         if st = 200 then
                           (case order_update (ord_id order) ''CONFIRMED'' (orders s2) of
                              Inr (updatedOrder, os2) \<Rightarrow>
                                (Some \<lparr>res_status = 201, res_json = OrderJson updatedOrder\<rparr>,
                                 s2\<lparr>orders := os2\<rparr>)
                            | Inl e \<Rightarrow> catch_inventory_error e order productId quantity s2)
                         else
                           catch_inventory_error
                             \<lparr>err_code = None, err_message = ''Inventory deduction failed''\<rparr>
                             order productId quantity s2
                     | Rejected e \<Rightarrow> catch_inventory_error e order productId quantity s2))
      | _ \<Rightarrow> (Some \<lparr>res_status = 400, res_json = ErrorJson ''Missing productId or quantity''\<rparr>, s))"

section \<open>Queue consumers\<close>

text \<open>\<open>channel.ack(msg)\<close>: the broker drops the delivered message from its queue.\<close>

definition ack_completion :: "completion_event \<Rightarrow> system \<Rightarrow> system" where
  "ack_completion msg s = s\<lparr>order_completion_queue := remove1 msg (order_completion_queue s)\<rparr>"

definition ack_work :: "work_item \<Rightarrow> system \<Rightarrow> system" where
  "ack_work msg s = s\<lparr>inventory_queue := remove1 msg (inventory_queue s)\<rparr>"

text \<open>
  The order service's consumer of \<open>order_completion_queue\<close>: the status to write is the
  event's when that is \<open>COMPLETED\<close> or \<open>FAILED\<close>, else \<open>COMPLETED\<close>; the update is
  unconditional, a throw from it is logged and dropped, and the message is acknowledged.
\<close>

definition completion_status :: "completion_event \<Rightarrow> string" where
  "completion_status data =
     (if ev_status data = Some (JStr ''COMPLETED'') then ''COMPLETED''
      else if ev_status data = Some (JStr ''FAILED'') then ''FAILED''
      else ''COMPLETED'')"

definition on_completion :: "completion_event option \<Rightarrow> system \<Rightarrow> system" where
  "on_completion msg s =
     (case msg of
        None \<Rightarrow> s
      | Some data \<Rightarrow>
          let s1 = (case order_update (ev_orderId data) (completion_status data) (orders s) of
                      Inl e \<Rightarrow> s
                    | Inr (updated, os) \<Rightarrow> s\<lparr>orders := os\<rparr>)
          in ack_completion data s1)"

text \<open>
  The inventory service's consumer of \<open>inventory_queue\<close>: \<open>deductInventory\<close>, then on
  success a \<open>COMPLETED\<close> event on \<open>order_completion_queue\<close> and the acknowledgement; on a
  throw only the log line and the acknowledgement.
\<close>

definition on_work_item :: "work_item option \<Rightarrow> system \<Rightarrow> system" where
  "on_work_item msg s =
     (case msg of
        None \<Rightarrow> s
      | Some data \<Rightarrow>
          (case deductInventory (w_productId data) (w_quantity data) (w_orderId data) (inventory s) of
             (Inr result, db', ops) \<Rightarrow>
               ack_work data
                 (s\<lparr>inventory := db',
                    order_completion_queue := order_completion_queue s @
                      [\<lparr>ev_orderId = w_orderId data, ev_status = Some (JStr ''COMPLETED''),
                        ev_message = ''Inventory deducted successfully (Async)''\<rparr>]\<rparr>)
           | (Inl e, db', ops) \<Rightarrow> ack_work data (s\<lparr>inventory := db'\<rparr>)))"

section \<open>Rolling latency window\<close>

text \<open>
  A sample of \<open>requestDurations\<close>: \<open>time\<close> in milliseconds since the epoch,
  \<open>duration\<close> in seconds. Durations are modelled as exact reals; the rounding of
  JavaScript's doubles is not part of the model.
\<close>

record sample =
  time :: int
  duration :: real

definition WINDOW_SIZE_MS :: int where
  "WINDOW_SIZE_MS = 30000"

text \<open>The two values \<open>GET /stats\<close> reports at clock reading \<open>now\<close>.\<close>

definition stats :: "int \<Rightarrow> sample list \<Rightarrow> real \<times> nat" where
  "stats now requestDurations =
     (let validDurations = filter (\<lambda>r. now - time r \<le> WINDOW_SIZE_MS) requestDurations;
          count = length validDurations;
          totalDuration = foldl (\<lambda>sum r. sum + duration r) 0 validDurations;
          average = (if count > 0 then totalDuration / real count else 0)
      in (average, count))"

definition average :: "int \<Rightarrow> sample list \<Rightarrow> real" where
  "average now requestDurations = fst (stats now requestDurations)"

text \<open>
  The specification's wording of the same value: the arithmetic mean of the samples whose
  age at the read is at most the window, and 0 when there is none.
\<close>

definition in_window :: "int \<Rightarrow> sample \<Rightarrow> bool" where
  "in_window now r = (now - time r \<le> 30000)"

definition window_mean :: "int \<Rightarrow> sample list \<Rightarrow> real" where
  "window_mean now rs =
     (if filter (in_window now) rs = [] then 0
      else sum_list (map duration (filter (in_window now) rs)) / real (length (filter (in_window now) rs)))"

section \<open>Vocabulary of the specification and sample states\<close>

text \<open>The specification's terminal order states.\<close>

definition terminal :: "string \<Rightarrow> bool" where
  "terminal st = (st = ''CONFIRMED'' \<or> st = ''COMPLETED'' \<or> st = ''FAILED'')"

text \<open>The error text a response carries to the caller (empty when it carries none).\<close>

definition surfaced_error :: "response option \<Rightarrow> string" where
  "surfaced_error r =
     (case r of
        None \<Rightarrow> []
      | Some res \<Rightarrow>
          (case res_json res of
             ErrorJson e \<Rightarrow> e
           | FailedJson e oid st \<Rightarrow> e
           | _ \<Rightarrow> []))"

text \<open>One seeded product with 20 units, an empty log, no orders, a connected broker.\<close>

definition demo_db :: inv_db where
  "demo_db = \<lparr>products = [''p1'' \<mapsto> \<lparr>name = ''Flux Capacitor'', stock = 20\<rparr>],
              idempotencyLog = []\<rparr>"

definition demo_system :: system where
  "demo_system = \<lparr>orders = Map.empty, channel = Channel True, inventory_queue = [],
                   order_completion_queue = [], inventory = demo_db\<rparr>"

section \<open>Double subtraction\<close>

lemma drop_count_small: "a < 9007199254740992 \<Longrightarrow> drop_count a = 0"
  by (simp add: drop_count.simps)

lemma drop_count_once:
  "9007199254740992 \<le> a \<Longrightarrow> a < 18014398509481984 \<Longrightarrow> drop_count a = 1"
proof -
  assume "9007199254740992 \<le> a" and "a < 18014398509481984"
  then have "a div 2 < 9007199254740992" and "\<not> a < 9007199254740992" by simp_all
  then show ?thesis
    by (subst drop_count.simps) (simp add: drop_count_small)
qed

lemma round_double_exact:
  assumes "\<bar>x\<bar> \<le> 9007199254740992"
  shows "round_double x = x"
proof (cases "\<bar>x\<bar> < 9007199254740992")
  case True
  then have "nat \<bar>x\<bar> < 9007199254740992" by simp
  then have "drop_count (nat \<bar>x\<bar>) = 0" by (rule drop_count_small)
  then show ?thesis
    by (simp add: round_double_def Let_def mult_sgn_abs)
next
  case False
  with assms have eq: "\<bar>x\<bar> = 9007199254740992" by simp
  then have n: "nat \<bar>x\<bar> = 9007199254740992" by simp
  have d: "drop_count 9007199254740992 = 1" by (rule drop_count_once) simp_all
  have "sgn x * 9007199254740992 = x" using eq mult_sgn_abs [of x] by simp
  then show ?thesis
    by (simp add: round_double_def Let_def n d)
qed

lemma js_sub_exact: "\<bar>a - b\<bar> \<le> 9007199254740992 \<Longrightarrow> js_sub a b = a - b"
  by (simp add: js_sub_def round_double_exact)

lemma js_sub_tie_to_even: "js_sub 21 (- 9007199254740992) = 9007199254741012"
proof -
  have d: "drop_count 9007199254741013 = 1" by (rule drop_count_once) simp_all
  show ?thesis
    by (simp add: js_sub_def round_double_def Let_def d)
qed

section \<open>Properties of the inventory service\<close>

lemma transaction_rollback:
  "fst (body db) = Inl e \<Longrightarrow> fst (snd (transaction body db)) = db"
  by (cases "body db") (auto simp: transaction_def)

lemma deductInventory_fresh_ok:
  assumes "orderId \<notin> set (idempotencyLog db)"
    and "products db productId = Some p"
    and "quantity \<le> stock p"
  shows "deductInventory productId quantity orderId db =
           (Inr \<lparr>message = ''Stock deducted'', success = True\<rparr>,
            db\<lparr>products := (products db)(productId \<mapsto> p\<lparr>stock := js_sub (stock p) quantity\<rparr>),
               idempotencyLog := idempotencyLog db @ [orderId]\<rparr>,
            [Log_findUnique orderId, Product_findUnique productId,
             Product_update productId (js_sub (stock p) quantity), Log_create orderId])"
  using assms by (simp add: deductInventory_def transaction_def deduct_tx_def Let_def)

lemma deductInventory_fresh_fail:
  assumes "orderId \<notin> set (idempotencyLog db)"
    and "products db productId = None \<or> (\<exists>p. products db productId = Some p \<and> stock p < quantity)"
  shows "deductInventory productId quantity orderId db =
           (Inl (Error ''Insufficient stock or product not found''), db,
            [Log_findUnique orderId, Product_findUnique productId])"
  using assms by (auto simp: deductInventory_def transaction_def deduct_tx_def Let_def)

lemma deductInventory_logged:
  assumes "orderId \<in> set (idempotencyLog db)"
  shows "deductInventory productId quantity orderId db =
           (Inr \<lparr>message = ''Stock already deducted (Idempotent)'', success = True\<rparr>,
            db, [Log_findUnique orderId])"
  using assms by (simp add: deductInventory_def)

text \<open>
  Whatever the arguments, \<open>deductInventory\<close> either leaves the database as it found it
  or has written both the decremented stock and the log row.
\<close>

lemma deductInventory_all_or_nothing:
  assumes "deductInventory productId quantity orderId db = (r, db', ops)"
  shows "db' = db \<or>
         (\<exists>p. products db productId = Some p \<and>
              db' = db\<lparr>products := (products db)(productId \<mapsto> p\<lparr>stock := js_sub (stock p) quantity\<rparr>),
                       idempotencyLog := idempotencyLog db @ [orderId]\<rparr>)"
proof (cases "orderId \<in> set (idempotencyLog db)")
  case True
  with assms show ?thesis by (simp add: deductInventory_logged)
next
  case False
  show ?thesis
  proof (cases "products db productId")
    case None
    with False assms show ?thesis by (simp add: deductInventory_fresh_fail)
  next
    case (Some p)
    show ?thesis
    proof (cases "stock p < quantity")
      case True
      with False Some assms show ?thesis by (simp add: deductInventory_fresh_fail)
    next
      case short: False
      then have "quantity \<le> stock p" by simp
      from deductInventory_fresh_ok [OF False Some this] assms Some show ?thesis by simp
    qed
  qed
qed

section \<open>The HTTP call and the timeout branch\<close>

lemma decimal_400: "decimal 400 = ''400''"
  by (simp add: decimal.simps)

lemma decimal_2000: "decimal 2000 = ''2000''"
  by (simp add: decimal.simps)

lemma axios_post_late:
  "timeout_ms < elapsed \<Longrightarrow>
   axios_post elapsed res =
     Rejected \<lparr>err_code = Some ''ECONNABORTED'', err_message = ''timeout of 2000ms exceeded''\<rparr>"
  by (simp add: axios_post_def timeout_ms_def decimal_2000)

lemma axios_post_400:
  "elapsed \<le> timeout_ms \<Longrightarrow> res_status res = 400 \<Longrightarrow>
   axios_post elapsed res =
     Rejected \<lparr>err_code = Some ''ERR_BAD_REQUEST'',
               err_message = ''Request failed with status code 400''\<rparr>"
  by (simp add: axios_post_def decimal_400)

lemma is_timeout_late:
  "is_timeout \<lparr>err_code = Some ''ECONNABORTED'', err_message = ''timeout of 2000ms exceeded''\<rparr>"
  by (simp add: is_timeout_def)

lemma not_timeout_400:
  "\<not> is_timeout \<lparr>err_code = Some ''ERR_BAD_REQUEST'',
                  err_message = ''Request failed with status code 400''\<rparr>"
  by (simp add: is_timeout_def)

lemma post_inventory_deduct_valid:
  assumes "productId \<noteq> []" "quantity \<noteq> 0" "orderId \<noteq> []"
  shows "post_inventory_deduct
           \<lparr>d_productId = Some productId, d_quantity = Some quantity,
            d_orderId = Some orderId, d_gremlin = g\<rparr> db =
         (case deductInventory productId quantity orderId db of
            (Inr result, db', ops) \<Rightarrow>
              (\<lparr>res_status = 200, res_json = DeductJson result\<rparr>, db', if g then 5000 else 0)
          | (Inl (Error m), db', ops) \<Rightarrow>
              (\<lparr>res_status = 400, res_json = ErrorJson m\<rparr>, db', if g then 5000 else 0))"
  using assms by (simp add: post_inventory_deduct_def Let_def)

lemma post_inventory_deduct_delay:
  "snd (snd (post_inventory_deduct
      \<lparr>d_productId = Some productId, d_quantity = Some quantity,
       d_orderId = Some orderId, d_gremlin = g\<rparr> db)) =
   (if productId \<noteq> [] \<and> quantity \<noteq> 0 \<and> orderId \<noteq> [] \<and> g then 5000 else 0)"
  by (auto simp: post_inventory_deduct_def Let_def split: prod.splits sum.splits error.splits)

lemma post_orders_late:
  assumes b: "b_productId b = Some productId" "b_quantity b = Some quantity"
    and valid: "productId \<noteq> []" "quantity \<noteq> 0"
    and fresh: "oid \<notin> dom (orders s)"
    and late: "timeout_ms < latency \<or> (b_gremlin b \<and> oid \<noteq> [])"
  shows "\<exists>inv.
    post_orders b oid latency s =
      (let order = \<lparr>ord_id = oid, ord_productId = productId, ord_quantity = quantity,
                    ord_status = ''PENDING''\<rparr>;
           s2 = s\<lparr>orders := (orders s)(oid \<mapsto> order), inventory := inv\<rparr>
       in case queue_fallback order productId quantity s2 of
            (Inr res, s3) \<Rightarrow> (Some res, s3)
          | (Inl queueError, s3) \<Rightarrow> general_failure ''Order failed due to inventory issue'' order s3)"
proof -
  let ?body = "\<lparr>d_productId = Some productId, d_quantity = Some quantity,
                d_orderId = Some oid, d_gremlin = b_gremlin b\<rparr>"
  obtain res inv delay where call: "post_inventory_deduct ?body (inventory s) = (res, inv, delay)"
    by (cases "post_inventory_deduct ?body (inventory s)") auto
  have "delay = (if productId \<noteq> [] \<and> quantity \<noteq> 0 \<and> oid \<noteq> [] \<and> b_gremlin b then 5000 else 0)"
    using post_inventory_deduct_delay [of productId quantity oid "b_gremlin b" "inventory s"] call
    by simp
  with late valid have "timeout_ms < latency + delay"
    by (auto simp: timeout_ms_def)
  then have out: "axios_post (latency + delay) res =
      Rejected \<lparr>err_code = Some ''ECONNABORTED'', err_message = ''timeout of 2000ms exceeded''\<rparr>"
    by (rule axios_post_late)
  show ?thesis
    using b valid fresh call out is_timeout_late
    by (intro exI [of _ inv])
       (simp add: post_orders_def order_create_def catch_inventory_error_def Let_def)
qed

lemma queue_fallback_open:
  assumes "channel s = Channel True" and "orders s (ord_id order) = Some row"
  shows "queue_fallback order productId quantity s =
     (Inr \<lparr>res_status = 202,
           res_json = QueuedJson ''Order timed out, queued for async processing''
                        ''QUEUED'' (ord_id order)\<rparr>,
      s\<lparr>inventory_queue := inventory_queue s @
            [\<lparr>w_productId = productId, w_quantity = quantity, w_orderId = ord_id order\<rparr>],
        orders := (orders s)(ord_id order \<mapsto> row\<lparr>ord_status := ''QUEUED''\<rparr>)\<rparr>)"
  using assms by (simp add: queue_fallback_def sendToQueue_def order_update_def)

lemma queue_fallback_down:
  assumes "channel s \<noteq> Channel True"
  shows "\<exists>e. queue_fallback order productId quantity s = (Inl e, s)"
  using assms
  by (cases "channel s") (auto simp: queue_fallback_def sendToQueue_def)

lemma general_failure_row:
  assumes "orders s (ord_id order) = Some row"
  shows "general_failure m order s =
     (Some \<lparr>res_status = 503, res_json = FailedJson m (ord_id order) ''FAILED''\<rparr>,
      s\<lparr>orders := (orders s)(ord_id order \<mapsto> row\<lparr>ord_status := ''FAILED''\<rparr>)\<rparr>)"
  using assms by (simp add: general_failure_def order_update_def)

lemma post_orders_stock_short:
  assumes "b_productId b = Some productId" and "b_quantity b = Some quantity"
    and "productId \<noteq> []" and "quantity \<noteq> 0"
    and "oid \<notin> dom (orders s)" and "oid \<noteq> []"
    and "oid \<notin> set (idempotencyLog (inventory s))"
    and "products (inventory s) productId = Some p" and "stock p < quantity"
    and "\<not> b_gremlin b" and "latency \<le> timeout_ms"
  shows "post_orders b oid latency s =
     (Some \<lparr>res_status = 503,
            res_json = FailedJson ''Order failed due to inventory issue'' oid ''FAILED''\<rparr>,
      s\<lparr>orders := (orders s)(oid \<mapsto>
           \<lparr>ord_id = oid, ord_productId = productId, ord_quantity = quantity,
            ord_status = ''FAILED''\<rparr>)\<rparr>)"
proof -
  have call: "post_inventory_deduct
      \<lparr>d_productId = Some productId, d_quantity = Some quantity,
       d_orderId = Some oid, d_gremlin = b_gremlin b\<rparr> (inventory s) =
      (\<lparr>res_status = 400, res_json = ErrorJson ''Insufficient stock or product not found''\<rparr>,
       inventory s, 0)"
    using assms by (simp add: post_inventory_deduct_valid deductInventory_fresh_fail)
  have out: "axios_post latency
      \<lparr>res_status = 400, res_json = ErrorJson ''Insufficient stock or product not found''\<rparr> =
      Rejected \<lparr>err_code = Some ''ERR_BAD_REQUEST'',
                err_message = ''Request failed with status code 400''\<rparr>"
    using assms(11) by (simp add: axios_post_400)
  show ?thesis
    using assms(1-5) call out not_timeout_400
    by (simp add: post_orders_def order_create_def catch_inventory_error_def Let_def
        general_failure_row)
qed

lemma general_failure_status:
  "fst (general_failure m order s) = Some r \<Longrightarrow> res_status r = 503"
  by (auto simp: general_failure_def split: sum.splits)

lemma queue_fallback_status:
  "queue_fallback order productId quantity s = (Inr r, s') \<Longrightarrow> res_status r = 202"
  by (auto simp: queue_fallback_def split: sum.splits if_splits)

lemma catch_inventory_error_status:
  assumes "fst (catch_inventory_error e order productId quantity s) = Some r"
  shows "res_status r = 202 \<or> res_status r = 503"
proof (cases "is_timeout e")
  case False
  with assms show ?thesis
    by (simp add: catch_inventory_error_def general_failure_status)
next
  case True
  obtain x s' where q: "queue_fallback order productId quantity s = (x, s')"
    by (cases "queue_fallback order productId quantity s") auto
  show ?thesis
  proof (cases x)
    case (Inl err)
    with assms True q show ?thesis
      by (simp add: catch_inventory_error_def general_failure_status)
  next
    case (Inr res)
    with assms True q show ?thesis
      by (auto simp: catch_inventory_error_def dest: queue_fallback_status)
  qed
qed

lemma post_orders_valid_status:
  assumes "productId \<noteq> []" and "quantity \<noteq> 0"
    and "fst (post_orders \<lparr>b_productId = Some productId, b_quantity = Some quantity,
                           b_gremlin = g\<rparr> oid latency s) = Some r"
  shows "res_status r = 201 \<or> res_status r = 202 \<or> res_status r = 503"
proof (cases "order_create oid productId quantity (orders s)")
  case (Inl e)
  with assms show ?thesis by (simp add: post_orders_def)
next
  case (Inr created)
  obtain order os where created: "created = (order, os)" by (cases created) auto
  let ?body = "\<lparr>d_productId = Some productId, d_quantity = Some quantity,
                d_orderId = Some (ord_id order), d_gremlin = g\<rparr>"
  obtain res inv delay where
    call: "post_inventory_deduct ?body (inventory (s\<lparr>orders := os\<rparr>)) = (res, inv, delay)"
    by (cases "post_inventory_deduct ?body (inventory (s\<lparr>orders := os\<rparr>))") auto
  let ?s2 = "s\<lparr>orders := os, inventory := inv\<rparr>"
  have unfolded: "post_orders \<lparr>b_productId = Some productId, b_quantity = Some quantity,
                           b_gremlin = g\<rparr> oid latency s =
      (case axios_post (latency + delay) res of
         Resolved st \<Rightarrow>
           if st = 200 then
             (case order_update (ord_id order) ''CONFIRMED'' (orders ?s2) of
                Inr (updatedOrder, os2) \<Rightarrow>
                  (Some \<lparr>res_status = 201, res_json = OrderJson updatedOrder\<rparr>,
                   ?s2\<lparr>orders := os2\<rparr>)
              | Inl e \<Rightarrow> catch_inventory_error e order productId quantity ?s2)
           else
             catch_inventory_error
               \<lparr>err_code = None, err_message = ''Inventory deduction failed''\<rparr>
               order productId quantity ?s2
       | Rejected e \<Rightarrow> catch_inventory_error e order productId quantity ?s2)"
    using assms(1,2) Inr created call by (simp add: post_orders_def Let_def)
  show ?thesis
  proof (cases "axios_post (latency + delay) res")
    case (Rejected e)
    with unfolded assms(3) show ?thesis
      using catch_inventory_error_status by simp
  next
    case (Resolved st)
    show ?thesis
    proof (cases "st = 200")
      case False
      with Resolved unfolded assms(3) show ?thesis
        using catch_inventory_error_status by simp
    next
      case True
      show ?thesis
      proof (cases "order_update (ord_id order) ''CONFIRMED'' (orders ?s2)")
        case (Inl e)
        with True Resolved unfolded assms(3) show ?thesis
          using catch_inventory_error_status by simp
      next
        case (Inr upd)
        with True Resolved unfolded assms(3) show ?thesis
          by (cases upd) auto
      qed
    qed
  qed
qed

lemma catch_inventory_error_row:
  assumes "orders s (ord_id order) = Some row"
  shows "\<exists>st. orders (snd (catch_inventory_error e order productId quantity s)) (ord_id order) =
              Some (row\<lparr>ord_status := st\<rparr>)"
proof (cases "is_timeout e")
  case False
  then show ?thesis
    by (intro exI [of _ "''FAILED''"])
       (simp add: catch_inventory_error_def general_failure_row [OF assms])
next
  case True
  show ?thesis
  proof (cases "channel s = Channel True")
    case chan_open: True
    from True queue_fallback_open [OF chan_open assms, of productId quantity] show ?thesis
      by (intro exI [of _ "''QUEUED''"]) (simp add: catch_inventory_error_def)
  next
    case False
    from queue_fallback_down [OF False] obtain err where
      "queue_fallback order productId quantity s = (Inl err, s)" by blast
    with True show ?thesis
      by (intro exI [of _ "''FAILED''"])
         (simp add: catch_inventory_error_def general_failure_row [OF assms])
  qed
qed

lemma post_orders_valid_row:
  assumes "productId \<noteq> []" and "quantity \<noteq> 0" and "oid \<notin> dom (orders s)"
  shows "\<exists>st. orders (snd (post_orders \<lparr>b_productId = Some productId, b_quantity = Some quantity,
                                         b_gremlin = g\<rparr> oid latency s)) oid =
              Some \<lparr>ord_id = oid, ord_productId = productId, ord_quantity = quantity,
                    ord_status = st\<rparr>"
proof -
  let ?b = "\<lparr>b_productId = Some productId, b_quantity = Some quantity, b_gremlin = g\<rparr>"
  let ?order = "\<lparr>ord_id = oid, ord_productId = productId, ord_quantity = quantity,
                 ord_status = ''PENDING''\<rparr>"
  let ?body = "\<lparr>d_productId = Some productId, d_quantity = Some quantity,
                d_orderId = Some oid, d_gremlin = g\<rparr>"
  obtain res inv delay where
    call: "post_inventory_deduct ?body (inventory s) = (res, inv, delay)"
    by (cases "post_inventory_deduct ?body (inventory s)") auto
  let ?s2 = "s\<lparr>orders := (orders s)(oid \<mapsto> ?order), inventory := inv\<rparr>"
  have row: "orders ?s2 (ord_id ?order) = Some ?order" by simp
  have caught: "\<exists>st. orders (snd (catch_inventory_error e ?order productId quantity ?s2)) oid =
              Some \<lparr>ord_id = oid, ord_productId = productId, ord_quantity = quantity,
                    ord_status = st\<rparr>" for e
    using catch_inventory_error_row [OF row, of e productId quantity] by simp
  show ?thesis
  proof (cases "axios_post (latency + delay) res")
    case (Rejected e)
    then have "post_orders ?b oid latency s =
        catch_inventory_error e ?order productId quantity ?s2"
      using assms call by (simp add: post_orders_def order_create_def Let_def)
    with caught [of e] show ?thesis by simp
  next
    case (Resolved st)
    show ?thesis
    proof (cases "st = 200")
      case True
      with Resolved have "post_orders ?b oid latency s =
          (Some \<lparr>res_status = 201, res_json = OrderJson (?order\<lparr>ord_status := ''CONFIRMED''\<rparr>)\<rparr>,
           ?s2\<lparr>orders := (orders ?s2)(oid \<mapsto> ?order\<lparr>ord_status := ''CONFIRMED''\<rparr>)\<rparr>)"
        using assms call
        by (simp add: post_orders_def order_create_def order_update_def Let_def)
      then show ?thesis
        by (intro exI [of _ "''CONFIRMED''"]) simp
    next
      case False
      with Resolved have "post_orders ?b oid latency s =
          catch_inventory_error \<lparr>err_code = None, err_message = ''Inventory deduction failed''\<rparr>
            ?order productId quantity ?s2"
        using assms call by (simp add: post_orders_def order_create_def Let_def)
      with caught [of "\<lparr>err_code = None, err_message = ''Inventory deduction failed''\<rparr>"]
      show ?thesis by simp
    qed
  qed
qed

section \<open>Consumers and the latency window\<close>

lemma on_completion_existing:
  assumes "orders s (ev_orderId data) = Some row"
  shows "on_completion (Some data) s =
     s\<lparr>orders := (orders s)(ev_orderId data \<mapsto> row\<lparr>ord_status := completion_status data\<rparr>),
       order_completion_queue := remove1 data (order_completion_queue s)\<rparr>"
  using assms by (simp add: on_completion_def order_update_def ack_completion_def)

lemma foldl_duration:
  "foldl (\<lambda>sum r. sum + duration r) a rs = a + sum_list (map duration rs)"
  by (induction rs arbitrary: a) simp_all

text \<open>The definitions a concrete placement unfolds to.\<close>

lemmas handler_defs =
  post_orders_def order_create_def order_update_def post_inventory_deduct_def
  deductInventory_def transaction_def deduct_tx_def axios_post_def timeout_ms_def
  decimal_2000 decimal_400 catch_inventory_error_def is_timeout_def queue_fallback_def
  sendToQueue_def general_failure_def demo_system_def demo_db_def Let_def

section \<open>The claims\<close>

text \<open>
  Claim C1, as the code has it. A first \<open>deductInventory\<close> for an order id that is not
  yet logged, on a product whose stock is at least the quantity (the difference within
  the exact range of doubles), deducts the quantity; a second call with the same order
  id, product and quantity finds the log row, replies that the stock was already
  deducted, makes no database call except the log lookup (it neither reads nor writes
  the product table) and leaves the database as the first call left it: over the two
  calls the stock went down by the quantity exactly once.
\<close>

theorem deductInventory_twice_once:
  assumes "orderId \<notin> set (idempotencyLog db)"
    and "products db productId = Some p"
    and "quantity \<le> stock p"
    and "stock p - quantity \<le> 9007199254740992"
  shows "(case deductInventory productId quantity orderId db of
            (r1, db1, ops1) \<Rightarrow>
              r1 = Inr \<lparr>message = ''Stock deducted'', success = True\<rparr> \<and>
              stock_of db1 productId = Some (stock p - quantity) \<and>
              (case deductInventory productId quantity orderId db1 of
                 (r2, db2, ops2) \<Rightarrow>
                   r2 = Inr \<lparr>message = ''Stock already deducted (Idempotent)'', success = True\<rparr> \<and>
                   ops2 = [Log_findUnique orderId] \<and>
                   db2 = db1 \<and>
                   stock_of db2 productId = Some (stock p - quantity)))"
proof -
  have "\<bar>stock p - quantity\<bar> \<le> 9007199254740992" using assms(3,4) by simp
  then have "js_sub (stock p) quantity = stock p - quantity" by (rule js_sub_exact)
  then show ?thesis
    using assms(1-3)
    by (simp add: deductInventory_fresh_ok deductInventory_logged stock_of_def)
qed

theorem deductInventory_twice_once_witness:
  "''o1'' \<notin> set (idempotencyLog demo_db) \<and>
   products demo_db ''p1'' = Some \<lparr>name = ''Flux Capacitor'', stock = 20\<rparr> \<and>
   (3::int) \<le> stock \<lparr>name = ''Flux Capacitor'', stock = 20\<rparr> \<and>
   stock \<lparr>name = ''Flux Capacitor'', stock = 20\<rparr> - 3 \<le> (9007199254740992::int) \<and>
   (case deductInventory ''p1'' 3 ''o1'' demo_db of
      (r1, db1, ops1) \<Rightarrow>
        r1 = Inr \<lparr>message = ''Stock deducted'', success = True\<rparr> \<and>
        stock_of db1 ''p1'' = Some 17 \<and>
        (case deductInventory ''p1'' 3 ''o1'' db1 of
           (r2, db2, ops2) \<Rightarrow>
             r2 = Inr \<lparr>message = ''Stock already deducted (Idempotent)'', success = True\<rparr> \<and>
             ops2 = [Log_findUnique ''o1''] \<and>
             db2 = db1 \<and>
             stock_of db2 ''p1'' = Some 17))"
proof -
  have h1: "''o1'' \<notin> set (idempotencyLog demo_db)" by (simp add: demo_db_def)
  have h2: "products demo_db ''p1'' = Some \<lparr>name = ''Flux Capacitor'', stock = 20\<rparr>"
    by (simp add: demo_db_def)
  have h3: "(3::int) \<le> stock \<lparr>name = ''Flux Capacitor'', stock = 20\<rparr>" by simp
  have h4: "stock \<lparr>name = ''Flux Capacitor'', stock = 20\<rparr> - 3 \<le> (9007199254740992::int)"
    by simp
  show ?thesis
    using h1 h2 h3 h4 deductInventory_twice_once [OF h1 h2 h3 h4] by simp
qed

text \<open>
  Without enough stock two calls do not decrement once: asked for 21 of a product with
  20, the first call throws and logs nothing, so the second finds no log row, reads the
  product again and throws as well; the stock is still 20.
\<close>

theorem deductInventory_twice_insufficient:
  "fst (deductInventory ''p1'' 21 ''o1'' demo_db) =
     Inl (Error ''Insufficient stock or product not found'') \<and>
   ''o1'' \<notin> set (idempotencyLog (fst (snd (deductInventory ''p1'' 21 ''o1'' demo_db)))) \<and>
   fst (deductInventory ''p1'' 21 ''o1'' (fst (snd (deductInventory ''p1'' 21 ''o1'' demo_db)))) =
     Inl (Error ''Insufficient stock or product not found'') \<and>
   snd (snd (deductInventory ''p1'' 21 ''o1''
               (fst (snd (deductInventory ''p1'' 21 ''o1'' demo_db))))) =
     [Log_findUnique ''o1'', Product_findUnique ''p1''] \<and>
   stock_of (fst (snd (deductInventory ''p1'' 21 ''o1''
               (fst (snd (deductInventory ''p1'' 21 ''o1'' demo_db)))))) ''p1'' = Some 20"
  by (simp add: deductInventory_def transaction_def deduct_tx_def stock_of_def demo_db_def)

text \<open>
  Claim C2, as the code has it. The completion consumer has no guard on the order's
  current status: for an order that exists, a completion event replaces the status by
  the event's outcome (\<open>FAILED\<close> when the event says so, otherwise \<open>COMPLETED\<close>),
  keeps the other fields and every other order, and so leaves the order as it was
  exactly when the outcome equals the status it already had.
\<close>

theorem on_completion_overwrites:
  assumes "orders s (ev_orderId data) = Some row"
  shows "orders (on_completion (Some data) s) =
           (orders s)(ev_orderId data \<mapsto> row\<lparr>ord_status := completion_status data\<rparr>) \<and>
         (completion_status data = ''COMPLETED'' \<or> completion_status data = ''FAILED'') \<and>
         (orders (on_completion (Some data) s) (ev_orderId data) = Some row \<longleftrightarrow>
            ord_status row = completion_status data)"
proof -
  have "row\<lparr>ord_status := completion_status data\<rparr> = row
        \<longleftrightarrow> ord_status row = completion_status data"
    by (cases row) auto
  then show ?thesis
    using assms by (simp add: on_completion_existing completion_status_def)
qed

theorem on_completion_overwrites_witness:
  "orders (demo_system\<lparr>orders := [''o1'' \<mapsto>
       \<lparr>ord_id = ''o1'', ord_productId = ''p1'', ord_quantity = 3, ord_status = ''CONFIRMED''\<rparr>]\<rparr>)
     (ev_orderId \<lparr>ev_orderId = ''o1'', ev_status = Some (JStr ''FAILED''), ev_message = []\<rparr>) =
     Some \<lparr>ord_id = ''o1'', ord_productId = ''p1'', ord_quantity = 3, ord_status = ''CONFIRMED''\<rparr> \<and>
   orders (on_completion
             (Some \<lparr>ev_orderId = ''o1'', ev_status = Some (JStr ''FAILED''), ev_message = []\<rparr>)
             (demo_system\<lparr>orders := [''o1'' \<mapsto>
                \<lparr>ord_id = ''o1'', ord_productId = ''p1'', ord_quantity = 3,
                 ord_status = ''CONFIRMED''\<rparr>]\<rparr>)) ''o1'' =
     Some \<lparr>ord_id = ''o1'', ord_productId = ''p1'', ord_quantity = 3, ord_status = ''FAILED''\<rparr> \<and>
   orders (on_completion
             (Some \<lparr>ev_orderId = ''o1'', ev_status = Some (JStr ''FAILED''), ev_message = []\<rparr>)
             (demo_system\<lparr>orders := [''o1'' \<mapsto>
                \<lparr>ord_id = ''o1'', ord_productId = ''p1'', ord_quantity = 3,
                 ord_status = ''CONFIRMED''\<rparr>]\<rparr>)) ''o1'' \<noteq>
     Some \<lparr>ord_id = ''o1'', ord_productId = ''p1'', ord_quantity = 3, ord_status = ''CONFIRMED''\<rparr>"
proof -
  let ?row = "\<lparr>ord_id = ''o1'', ord_productId = ''p1'', ord_quantity = 3, ord_status = ''CONFIRMED''\<rparr>"
  let ?s = "demo_system\<lparr>orders := [''o1'' \<mapsto> ?row]\<rparr>"
  let ?ev = "\<lparr>ev_orderId = ''o1'', ev_status = Some (JStr ''FAILED''), ev_message = []\<rparr>"
  have h: "orders ?s (ev_orderId ?ev) = Some ?row" by simp
  have st: "completion_status ?ev = ''FAILED''" by (simp add: completion_status_def)
  show ?thesis
    using h st on_completion_overwrites [OF h] by simp
qed

text \<open>
  A terminal order does leave its state: a \<open>FAILED\<close> order becomes
  \<open>COMPLETED\<close> when a \<open>COMPLETED\<close> event for it is consumed.
\<close>

theorem terminal_order_overwritten:
  "terminal ''FAILED'' \<and>
   orders (on_completion
             (Some \<lparr>ev_orderId = ''o1'', ev_status = Some (JStr ''COMPLETED''),
                    ev_message = ''Inventory deducted successfully (Async)''\<rparr>)
             (demo_system\<lparr>orders := [''o1'' \<mapsto>
                \<lparr>ord_id = ''o1'', ord_productId = ''p1'', ord_quantity = 3,
                 ord_status = ''FAILED''\<rparr>]\<rparr>)) ''o1'' =
     Some \<lparr>ord_id = ''o1'', ord_productId = ''p1'', ord_quantity = 3,
           ord_status = ''COMPLETED''\<rparr> \<and>
   orders (on_completion
             (Some \<lparr>ev_orderId = ''o1'', ev_status = Some (JStr ''COMPLETED''),
                    ev_message = ''Inventory deducted successfully (Async)''\<rparr>)
             (demo_system\<lparr>orders := [''o1'' \<mapsto>
                \<lparr>ord_id = ''o1'', ord_productId = ''p1'', ord_quantity = 3,
                 ord_status = ''FAILED''\<rparr>]\<rparr>)) ''o1'' \<noteq>
     orders (demo_system\<lparr>orders := [''o1'' \<mapsto>
                \<lparr>ord_id = ''o1'', ord_productId = ''p1'', ord_quantity = 3,
                 ord_status = ''FAILED''\<rparr>]\<rparr>) ''o1''"
  by (simp add: terminal_def on_completion_def order_update_def completion_status_def
      ack_completion_def demo_system_def)

text \<open>
  Claim C3. \<open>deductInventory\<close> for an order id that is not yet logged, on a product whose
  stock is below the quantity, throws the insufficient-stock error after reading the
  product, and the database it leaves is the one it found: the stock is unchanged and
  no log row exists for the order id.
\<close>

theorem deductInventory_insufficient_atomic:
  assumes "orderId \<notin> set (idempotencyLog db)"
    and "products db productId = Some p"
    and "stock p < quantity"
  shows "deductInventory productId quantity orderId db =
           (Inl (Error ''Insufficient stock or product not found''), db,
            [Log_findUnique orderId, Product_findUnique productId])"
  using assms by (simp add: deductInventory_fresh_fail)

theorem deductInventory_insufficient_atomic_witness:
  "''o1'' \<notin> set (idempotencyLog demo_db) \<and>
   products demo_db ''p1'' = Some \<lparr>name = ''Flux Capacitor'', stock = 20\<rparr> \<and>
   stock \<lparr>name = ''Flux Capacitor'', stock = 20\<rparr> < (21::int) \<and>
   deductInventory ''p1'' 21 ''o1'' demo_db =
     (Inl (Error ''Insufficient stock or product not found''), demo_db,
      [Log_findUnique ''o1'', Product_findUnique ''p1''])"
proof -
  have h1: "''o1'' \<notin> set (idempotencyLog demo_db)" by (simp add: demo_db_def)
  have h2: "products demo_db ''p1'' = Some \<lparr>name = ''Flux Capacitor'', stock = 20\<rparr>"
    by (simp add: demo_db_def)
  have h3: "stock \<lparr>name = ''Flux Capacitor'', stock = 20\<rparr> < (21::int)" by simp
  show ?thesis
    using h1 h2 h3 deductInventory_insufficient_atomic [OF h1 h2 h3] by simp
qed

text \<open>
  Claim C4. A valid placement whose inventory call runs past the 2000 ms timeout (the
  call itself is slow, or the gremlin flag makes the inventory service sleep), with an
  open channel, is answered 202 with the order id and status \<open>QUEUED\<close>; the order
  row is \<open>QUEUED\<close>, the work item is at the end of \<open>inventory_queue\<close>, and the
  response is not the 201 response of a synchronous success.
\<close>

theorem post_orders_timeout_queued:
  assumes "b_productId b = Some productId" and "b_quantity b = Some quantity"
    and "productId \<noteq> []" and "quantity \<noteq> 0"
    and "oid \<notin> dom (orders s)"
    and "timeout_ms < latency \<or> (b_gremlin b \<and> oid \<noteq> [])"
    and "channel s = Channel True"
  shows "fst (post_orders b oid latency s) =
           Some \<lparr>res_status = 202,
                 res_json = QueuedJson ''Order timed out, queued for async processing''
                              ''QUEUED'' oid\<rparr> \<and>
         orders (snd (post_orders b oid latency s)) oid =
           Some \<lparr>ord_id = oid, ord_productId = productId, ord_quantity = quantity,
                 ord_status = ''QUEUED''\<rparr> \<and>
         inventory_queue (snd (post_orders b oid latency s)) =
           inventory_queue s @ [\<lparr>w_productId = productId, w_quantity = quantity, w_orderId = oid\<rparr>] \<and>
         (\<forall>row. fst (post_orders b oid latency s) \<noteq>
                  Some \<lparr>res_status = 201, res_json = OrderJson row\<rparr>)"
proof -
  from post_orders_late [OF assms(1-6)] obtain inv where
    "post_orders b oid latency s =
      (let order = \<lparr>ord_id = oid, ord_productId = productId, ord_quantity = quantity,
                    ord_status = ''PENDING''\<rparr>;
           s2 = s\<lparr>orders := (orders s)(oid \<mapsto> order), inventory := inv\<rparr>
       in case queue_fallback order productId quantity s2 of
            (Inr res, s3) \<Rightarrow> (Some res, s3)
          | (Inl queueError, s3) \<Rightarrow> general_failure ''Order failed due to inventory issue'' order s3)"
    by blast
  then show ?thesis
    using assms(7) by (simp add: Let_def queue_fallback_open)
qed

theorem post_orders_timeout_queued_witness:
  "b_productId \<lparr>b_productId = Some ''p1'', b_quantity = Some 3, b_gremlin = True\<rparr> = Some ''p1'' \<and>
   b_quantity \<lparr>b_productId = Some ''p1'', b_quantity = Some 3, b_gremlin = True\<rparr> = Some 3 \<and>
   ''p1'' \<noteq> [] \<and> (3::int) \<noteq> 0 \<and>
   ''o1'' \<notin> dom (orders demo_system) \<and>
   (timeout_ms < 100 \<or>
    (b_gremlin \<lparr>b_productId = Some ''p1'', b_quantity = Some 3, b_gremlin = True\<rparr> \<and> ''o1'' \<noteq> [])) \<and>
   channel demo_system = Channel True \<and>
   fst (post_orders \<lparr>b_productId = Some ''p1'', b_quantity = Some 3, b_gremlin = True\<rparr>
          ''o1'' 100 demo_system) =
     Some \<lparr>res_status = 202,
           res_json = QueuedJson ''Order timed out, queued for async processing'' ''QUEUED'' ''o1''\<rparr> \<and>
   orders (snd (post_orders \<lparr>b_productId = Some ''p1'', b_quantity = Some 3, b_gremlin = True\<rparr>
                  ''o1'' 100 demo_system)) ''o1'' =
     Some \<lparr>ord_id = ''o1'', ord_productId = ''p1'', ord_quantity = 3, ord_status = ''QUEUED''\<rparr> \<and>
   inventory_queue (snd (post_orders \<lparr>b_productId = Some ''p1'', b_quantity = Some 3, b_gremlin = True\<rparr>
                  ''o1'' 100 demo_system)) =
     inventory_queue demo_system @ [\<lparr>w_productId = ''p1'', w_quantity = 3, w_orderId = ''o1''\<rparr>] \<and>
   (\<forall>row. fst (post_orders \<lparr>b_productId = Some ''p1'', b_quantity = Some 3, b_gremlin = True\<rparr>
                  ''o1'' 100 demo_system) \<noteq>
            Some \<lparr>res_status = 201, res_json = OrderJson row\<rparr>)"
proof -
  let ?b = "\<lparr>b_productId = Some ''p1'', b_quantity = Some 3, b_gremlin = True\<rparr>"
  have h1: "b_productId ?b = Some ''p1''" by simp
  have h2: "b_quantity ?b = Some 3" by simp
  have h3: "''p1'' \<noteq> []" by simp
  have h4: "(3::int) \<noteq> 0" by simp
  have h5: "''o1'' \<notin> dom (orders demo_system)" by (simp add: demo_system_def)
  have h6: "timeout_ms < 100 \<or> (b_gremlin ?b \<and> ''o1'' \<noteq> [])" by simp
  have h7: "channel demo_system = Channel True" by (simp add: demo_system_def)
  show ?thesis
    using h1 h2 h3 h4 h5 h6 h7 post_orders_timeout_queued [OF h1 h2 h3 h4 h5 h6 h7]
    by blast
qed

text \<open>
  Claim C5, as the code has it. A valid placement whose inventory call runs past the
  timeout while the channel is missing or closed ends with the order row \<open>FAILED\<close>,
  nothing enqueued, and the 503 response that every failed placement gets: the error
  text is the fixed \<open>Order failed due to inventory issue\<close>, with the order id and
  status \<open>FAILED\<close>.
\<close>

theorem post_orders_timeout_queue_down:
  assumes "b_productId b = Some productId" and "b_quantity b = Some quantity"
    and "productId \<noteq> []" and "quantity \<noteq> 0"
    and "oid \<notin> dom (orders s)"
    and "timeout_ms < latency \<or> (b_gremlin b \<and> oid \<noteq> [])"
    and "channel s \<noteq> Channel True"
  shows "fst (post_orders b oid latency s) =
           Some \<lparr>res_status = 503,
                 res_json = FailedJson ''Order failed due to inventory issue'' oid ''FAILED''\<rparr> \<and>
         orders (snd (post_orders b oid latency s)) oid =
           Some \<lparr>ord_id = oid, ord_productId = productId, ord_quantity = quantity,
                 ord_status = ''FAILED''\<rparr> \<and>
         inventory_queue (snd (post_orders b oid latency s)) = inventory_queue s"
proof -
  let ?order = "\<lparr>ord_id = oid, ord_productId = productId, ord_quantity = quantity,
                 ord_status = ''PENDING''\<rparr>"
  from post_orders_late [OF assms(1-6)] obtain inv where po:
    "post_orders b oid latency s =
      (let order = ?order;
           s2 = s\<lparr>orders := (orders s)(oid \<mapsto> order), inventory := inv\<rparr>
       in case queue_fallback order productId quantity s2 of
            (Inr res, s3) \<Rightarrow> (Some res, s3)
          | (Inl queueError, s3) \<Rightarrow> general_failure ''Order failed due to inventory issue'' order s3)"
    by blast
  let ?s2 = "s\<lparr>orders := (orders s)(oid \<mapsto> ?order), inventory := inv\<rparr>"
  have "channel ?s2 \<noteq> Channel True" using assms(7) by simp
  from queue_fallback_down [OF this] obtain e where
    "queue_fallback ?order productId quantity ?s2 = (Inl e, ?s2)" by blast
  with po show ?thesis
    by (simp add: Let_def general_failure_row)
qed

theorem post_orders_timeout_queue_down_witness:
  "b_productId \<lparr>b_productId = Some ''p1'', b_quantity = Some 3, b_gremlin = True\<rparr> = Some ''p1'' \<and>
   b_quantity \<lparr>b_productId = Some ''p1'', b_quantity = Some 3, b_gremlin = True\<rparr> = Some 3 \<and>
   ''p1'' \<noteq> [] \<and> (3::int) \<noteq> 0 \<and>
   ''o1'' \<notin> dom (orders (demo_system\<lparr>channel := NoChannel\<rparr>)) \<and>
   (timeout_ms < 100 \<or>
    (b_gremlin \<lparr>b_productId = Some ''p1'', b_quantity = Some 3, b_gremlin = True\<rparr> \<and> ''o1'' \<noteq> [])) \<and>
   channel (demo_system\<lparr>channel := NoChannel\<rparr>) \<noteq> Channel True \<and>
   fst (post_orders \<lparr>b_productId = Some ''p1'', b_quantity = Some 3, b_gremlin = True\<rparr>
          ''o1'' 100 (demo_system\<lparr>channel := NoChannel\<rparr>)) =
     Some \<lparr>res_status = 503,
           res_json = FailedJson ''Order failed due to inventory issue'' ''o1'' ''FAILED''\<rparr> \<and>
   orders (snd (post_orders \<lparr>b_productId = Some ''p1'', b_quantity = Some 3, b_gremlin = True\<rparr>
                  ''o1'' 100 (demo_system\<lparr>channel := NoChannel\<rparr>))) ''o1'' =
     Some \<lparr>ord_id = ''o1'', ord_productId = ''p1'', ord_quantity = 3, ord_status = ''FAILED''\<rparr> \<and>
   inventory_queue (snd (post_orders \<lparr>b_productId = Some ''p1'', b_quantity = Some 3, b_gremlin = True\<rparr>
                  ''o1'' 100 (demo_system\<lparr>channel := NoChannel\<rparr>))) =
     inventory_queue (demo_system\<lparr>channel := NoChannel\<rparr>)"
proof -
  let ?b = "\<lparr>b_productId = Some ''p1'', b_quantity = Some 3, b_gremlin = True\<rparr>"
  let ?s = "demo_system\<lparr>channel := NoChannel\<rparr>"
  have h1: "b_productId ?b = Some ''p1''" by simp
  have h2: "b_quantity ?b = Some 3" by simp
  have h3: "''p1'' \<noteq> []" by simp
  have h4: "(3::int) \<noteq> 0" by simp
  have h5: "''o1'' \<notin> dom (orders ?s)" by (simp add: demo_system_def)
  have h6: "timeout_ms < 100 \<or> (b_gremlin ?b \<and> ''o1'' \<noteq> [])" by simp
  have h7: "channel ?s \<noteq> Channel True" by simp
  show ?thesis
    using h1 h2 h3 h4 h5 h6 h7 post_orders_timeout_queue_down [OF h1 h2 h3 h4 h5 h6 h7]
    by blast
qed

text \<open>
  The response does not identify the condition: a timeout with the queue down is
  answered exactly as an order that asks for more than the stock, so the caller cannot
  tell the two apart.
\<close>

theorem queue_down_indistinguishable:
  "fst (post_orders \<lparr>b_productId = Some ''p1'', b_quantity = Some 3, b_gremlin = True\<rparr>
          ''o1'' 100 (demo_system\<lparr>channel := NoChannel\<rparr>)) =
   fst (post_orders \<lparr>b_productId = Some ''p1'', b_quantity = Some 21, b_gremlin = False\<rparr>
          ''o1'' 100 demo_system)"
  by (simp add: handler_defs)

text \<open>
  Claim C6 fails on the code. A work item asking for 21 of a product with 20 in stock
  makes \<open>deductInventory\<close> throw; the consumer acknowledges the message, and
  \<open>order_completion_queue\<close> stays empty: no \<open>FAILED\<close> event is published.
\<close>

theorem on_work_item_failure_no_event:
  "fst (deductInventory ''p1'' 21 ''o1'' (inventory demo_system)) =
     Inl (Error ''Insufficient stock or product not found'') \<and>
   inventory_queue
     (on_work_item (Some \<lparr>w_productId = ''p1'', w_quantity = 21, w_orderId = ''o1''\<rparr>)
        (demo_system\<lparr>inventory_queue :=
           [\<lparr>w_productId = ''p1'', w_quantity = 21, w_orderId = ''o1''\<rparr>]\<rparr>)) = [] \<and>
   order_completion_queue
     (on_work_item (Some \<lparr>w_productId = ''p1'', w_quantity = 21, w_orderId = ''o1''\<rparr>)
        (demo_system\<lparr>inventory_queue :=
           [\<lparr>w_productId = ''p1'', w_quantity = 21, w_orderId = ''o1''\<rparr>]\<rparr>)) = []"
  by (simp add: on_work_item_def ack_work_def deductInventory_def transaction_def deduct_tx_def
      demo_system_def demo_db_def)

text \<open>
  Claim C7, as the code has it. A valid placement without gremlin flag and within the
  timeout, for more than the product's stock, ends with the order row \<open>FAILED\<close>, the
  inventory database unchanged (so the stock too), and the 503 response with the fixed
  error text \<open>Order failed due to inventory issue\<close>.
\<close>

theorem post_orders_insufficient_stock:
  assumes "b_productId b = Some productId" and "b_quantity b = Some quantity"
    and "productId \<noteq> []" and "quantity \<noteq> 0"
    and "oid \<notin> dom (orders s)" and "oid \<noteq> []"
    and "oid \<notin> set (idempotencyLog (inventory s))"
    and "products (inventory s) productId = Some p" and "stock p < quantity"
    and "\<not> b_gremlin b" and "latency \<le> timeout_ms"
  shows "fst (post_orders b oid latency s) =
           Some \<lparr>res_status = 503,
                 res_json = FailedJson ''Order failed due to inventory issue'' oid ''FAILED''\<rparr> \<and>
         orders (snd (post_orders b oid latency s)) oid =
           Some \<lparr>ord_id = oid, ord_productId = productId, ord_quantity = quantity,
                 ord_status = ''FAILED''\<rparr> \<and>
         inventory (snd (post_orders b oid latency s)) = inventory s \<and>
         stock_of (inventory (snd (post_orders b oid latency s))) productId = Some (stock p)"
  using assms(8) by (simp add: post_orders_stock_short [OF assms] stock_of_def)

theorem post_orders_insufficient_stock_witness:
  "b_productId \<lparr>b_productId = Some ''p1'', b_quantity = Some 21, b_gremlin = False\<rparr> = Some ''p1'' \<and>
   b_quantity \<lparr>b_productId = Some ''p1'', b_quantity = Some 21, b_gremlin = False\<rparr> = Some 21 \<and>
   ''p1'' \<noteq> [] \<and> (21::int) \<noteq> 0 \<and>
   ''o1'' \<notin> dom (orders demo_system) \<and> ''o1'' \<noteq> [] \<and>
   ''o1'' \<notin> set (idempotencyLog (inventory demo_system)) \<and>
   products (inventory demo_system) ''p1'' = Some \<lparr>name = ''Flux Capacitor'', stock = 20\<rparr> \<and>
   stock \<lparr>name = ''Flux Capacitor'', stock = 20\<rparr> < (21::int) \<and>
   \<not> b_gremlin \<lparr>b_productId = Some ''p1'', b_quantity = Some 21, b_gremlin = False\<rparr> \<and>
   100 \<le> timeout_ms \<and>
   fst (post_orders \<lparr>b_productId = Some ''p1'', b_quantity = Some 21, b_gremlin = False\<rparr>
          ''o1'' 100 demo_system) =
     Some \<lparr>res_status = 503,
           res_json = FailedJson ''Order failed due to inventory issue'' ''o1'' ''FAILED''\<rparr> \<and>
   orders (snd (post_orders \<lparr>b_productId = Some ''p1'', b_quantity = Some 21, b_gremlin = False\<rparr>
                  ''o1'' 100 demo_system)) ''o1'' =
     Some \<lparr>ord_id = ''o1'', ord_productId = ''p1'', ord_quantity = 21, ord_status = ''FAILED''\<rparr> \<and>
   inventory (snd (post_orders \<lparr>b_productId = Some ''p1'', b_quantity = Some 21, b_gremlin = False\<rparr>
                  ''o1'' 100 demo_system)) = inventory demo_system \<and>
   stock_of (inventory (snd (post_orders
       \<lparr>b_productId = Some ''p1'', b_quantity = Some 21, b_gremlin = False\<rparr>
       ''o1'' 100 demo_system))) ''p1'' = Some 20"
proof -
  let ?b = "\<lparr>b_productId = Some ''p1'', b_quantity = Some 21, b_gremlin = False\<rparr>"
  let ?p = "\<lparr>name = ''Flux Capacitor'', stock = 20\<rparr>"
  have h1: "b_productId ?b = Some ''p1''" by simp
  have h2: "b_quantity ?b = Some 21" by simp
  have h3: "''p1'' \<noteq> []" by simp
  have h4: "(21::int) \<noteq> 0" by simp
  have h5: "''o1'' \<notin> dom (orders demo_system)" by (simp add: demo_system_def)
  have h6: "''o1'' \<noteq> []" by simp
  have h7: "''o1'' \<notin> set (idempotencyLog (inventory demo_system))"
    by (simp add: demo_system_def demo_db_def)
  have h8: "products (inventory demo_system) ''p1'' = Some ?p"
    by (simp add: demo_system_def demo_db_def)
  have h9: "stock ?p < (21::int)" by simp
  have h10: "\<not> b_gremlin ?b" by simp
  have h11: "100 \<le> timeout_ms" by (simp add: timeout_ms_def)
  have "stock ?p = 20" by simp
  then show ?thesis
    using h1 h2 h3 h4 h5 h6 h7 h8 h9 h10 h11
      post_orders_insufficient_stock [OF h1 h2 h3 h4 h5 h6 h7 h8 h9 h10 h11]
    by (simp add: stock_of_def)
qed

text \<open>
  The response does not carry the cause: its error text is the fixed one and does not
  mention stock; the reason \<open>Insufficient stock or product not found\<close> is in the
  inventory endpoint's own 400 reply only.
\<close>

theorem insufficient_reason_not_surfaced:
  "surfaced_error
     (fst (post_orders \<lparr>b_productId = Some ''p1'', b_quantity = Some 21, b_gremlin = False\<rparr>
             ''o1'' 100 demo_system)) = ''Order failed due to inventory issue'' \<and>
   \<not> str_includes
        (surfaced_error
           (fst (post_orders \<lparr>b_productId = Some ''p1'', b_quantity = Some 21, b_gremlin = False\<rparr>
                   ''o1'' 100 demo_system)))
        ''stock'' \<and>
   res_json (fst (post_inventory_deduct
        \<lparr>d_productId = Some ''p1'', d_quantity = Some 21, d_orderId = Some ''o1'',
         d_gremlin = False\<rparr> demo_db)) =
     ErrorJson ''Insufficient stock or product not found''"
  by (simp add: handler_defs surfaced_error_def)

text \<open>
  Claim C8. The average that \<open>GET /stats\<close> reports is the arithmetic mean of the
  samples whose age at the read is at most 30 seconds, and 0 when there is none; for
  samples at 0 s (1.0 s), 10 s (2.0 s) and 35 s (3.0 s) read at 36 s it is 2.5.
\<close>

theorem average_is_window_mean:
  "average now rs = window_mean now rs \<and>
   average 36000 [\<lparr>time = 0, duration = 1\<rparr>, \<lparr>time = 10000, duration = 2\<rparr>,
                  \<lparr>time = 35000, duration = 3\<rparr>] = 5 / 2"
proof
  have same: "(\<lambda>r. now - time r \<le> WINDOW_SIZE_MS) = in_window now"
    by (simp add: in_window_def WINDOW_SIZE_MS_def fun_eq_iff)
  show "average now rs = window_mean now rs"
    by (simp add: average_def stats_def window_mean_def Let_def same foldl_duration)
  show "average 36000 [\<lparr>time = 0, duration = 1\<rparr>, \<lparr>time = 10000, duration = 2\<rparr>,
                       \<lparr>time = 35000, duration = 3\<rparr>] = 5 / 2"
    by (simp add: average_def stats_def WINDOW_SIZE_MS_def Let_def)
qed

text \<open>
  Claim C9. A completion event whose status is neither the string \<open>COMPLETED\<close> nor
  the string \<open>FAILED\<close> (any other value, or none) sets the status of the order it
  refers to, when that order exists, to \<open>COMPLETED\<close>.
\<close>

theorem on_completion_defaults_to_completed:
  assumes "ev_status data \<noteq> Some (JStr ''COMPLETED'')"
    and "ev_status data \<noteq> Some (JStr ''FAILED'')"
    and "orders s (ev_orderId data) = Some row"
  shows "orders (on_completion (Some data) s) (ev_orderId data) =
           Some (row\<lparr>ord_status := ''COMPLETED''\<rparr>)"
  using assms by (simp add: on_completion_existing completion_status_def)

theorem on_completion_defaults_to_completed_witness:
  "ev_status \<lparr>ev_orderId = ''o1'', ev_status = None, ev_message = []\<rparr> \<noteq> Some (JStr ''COMPLETED'') \<and>
   ev_status \<lparr>ev_orderId = ''o1'', ev_status = None, ev_message = []\<rparr> \<noteq> Some (JStr ''FAILED'') \<and>
   orders (demo_system\<lparr>orders := [''o1'' \<mapsto>
       \<lparr>ord_id = ''o1'', ord_productId = ''p1'', ord_quantity = 3, ord_status = ''QUEUED''\<rparr>]\<rparr>)
     (ev_orderId \<lparr>ev_orderId = ''o1'', ev_status = None, ev_message = []\<rparr>) =
     Some \<lparr>ord_id = ''o1'', ord_productId = ''p1'', ord_quantity = 3, ord_status = ''QUEUED''\<rparr> \<and>
   orders (on_completion (Some \<lparr>ev_orderId = ''o1'', ev_status = None, ev_message = []\<rparr>)
             (demo_system\<lparr>orders := [''o1'' \<mapsto>
                \<lparr>ord_id = ''o1'', ord_productId = ''p1'', ord_quantity = 3,
                 ord_status = ''QUEUED''\<rparr>]\<rparr>)) ''o1'' =
     Some \<lparr>ord_id = ''o1'', ord_productId = ''p1'', ord_quantity = 3, ord_status = ''COMPLETED''\<rparr>"
proof -
  let ?row = "\<lparr>ord_id = ''o1'', ord_productId = ''p1'', ord_quantity = 3, ord_status = ''QUEUED''\<rparr>"
  let ?s = "demo_system\<lparr>orders := [''o1'' \<mapsto> ?row]\<rparr>"
  let ?ev = "\<lparr>ev_orderId = ''o1'', ev_status = None, ev_message = []\<rparr>"
  have h1: "ev_status ?ev \<noteq> Some (JStr ''COMPLETED'')" by simp
  have h2: "ev_status ?ev \<noteq> Some (JStr ''FAILED'')" by simp
  have h3: "orders ?s (ev_orderId ?ev) = Some ?row" by simp
  show ?thesis
    using h1 h2 h3 on_completion_defaults_to_completed [OF h1 h2 h3] by simp
qed

text \<open>
  Claim C10, as the code has it. For a negative quantity, a product with non-negative
  stock, an order id that is new to both databases, and a sum of stock and absolute
  quantity of at most \<open>2^53\<close>, the placement handler passes its validation: it does not
  answer with the validation error (which a zero quantity does get) and stores the
  order row with the negative quantity. \<open>deductInventory\<close> passes the stock check,
  replies with success and writes the stock plus the absolute value of the quantity.
\<close>

theorem negative_quantity_adds_stock:
  assumes "quantity < 0" and "productId \<noteq> []"
    and "products (inventory s) productId = Some p" and "0 \<le> stock p"
    and "oid \<notin> set (idempotencyLog (inventory s))"
    and "oid \<notin> dom (orders s)"
    and "stock p + \<bar>quantity\<bar> \<le> 9007199254740992"
  shows "fst (post_orders \<lparr>b_productId = Some productId, b_quantity = Some quantity,
                           b_gremlin = g\<rparr> oid latency s) \<noteq>
           Some \<lparr>res_status = 400, res_json = ErrorJson ''Missing productId or quantity''\<rparr> \<and>
         map_option ord_quantity
           (orders (snd (post_orders \<lparr>b_productId = Some productId, b_quantity = Some quantity,
                                      b_gremlin = g\<rparr> oid latency s)) oid) = Some quantity \<and>
         fst (post_orders \<lparr>b_productId = Some productId, b_quantity = Some 0,
                           b_gremlin = g\<rparr> oid latency s) =
           Some \<lparr>res_status = 400, res_json = ErrorJson ''Missing productId or quantity''\<rparr> \<and>
         (case deductInventory productId quantity oid (inventory s) of
            (r, db', ops) \<Rightarrow>
              r = Inr \<lparr>message = ''Stock deducted'', success = True\<rparr> \<and>
              stock_of db' productId = Some (stock p + \<bar>quantity\<bar>) \<and>
              ops = [Log_findUnique oid, Product_findUnique productId,
                     Product_update productId (stock p + \<bar>quantity\<bar>), Log_create oid])"
proof -
  have nz: "quantity \<noteq> 0" using assms(1) by simp
  have accepted: "fst (post_orders \<lparr>b_productId = Some productId, b_quantity = Some quantity,
                           b_gremlin = g\<rparr> oid latency s) \<noteq>
           Some \<lparr>res_status = 400, res_json = ErrorJson ''Missing productId or quantity''\<rparr>"
  proof
    assume "fst (post_orders \<lparr>b_productId = Some productId, b_quantity = Some quantity,
                           b_gremlin = g\<rparr> oid latency s) =
           Some \<lparr>res_status = 400, res_json = ErrorJson ''Missing productId or quantity''\<rparr>"
    from post_orders_valid_status [OF assms(2) nz this] show False by simp
  qed
  from post_orders_valid_row [OF assms(2) nz assms(6), of g latency]
  have stored: "map_option ord_quantity
           (orders (snd (post_orders \<lparr>b_productId = Some productId, b_quantity = Some quantity,
                                      b_gremlin = g\<rparr> oid latency s)) oid) = Some quantity"
    by auto
  have zero: "fst (post_orders \<lparr>b_productId = Some productId, b_quantity = Some 0,
                           b_gremlin = g\<rparr> oid latency s) =
           Some \<lparr>res_status = 400, res_json = ErrorJson ''Missing productId or quantity''\<rparr>"
    by (simp add: post_orders_def)
  have le: "quantity \<le> stock p" using assms(1,4) by simp
  have abs: "\<bar>quantity\<bar> = - quantity" using assms(1) by simp
  have "\<bar>stock p - quantity\<bar> \<le> 9007199254740992" using assms(1,4,7) by simp
  then have exact: "js_sub (stock p) quantity = stock p - quantity" by (rule js_sub_exact)
  have deducted: "(case deductInventory productId quantity oid (inventory s) of
            (r, db', ops) \<Rightarrow>
              r = Inr \<lparr>message = ''Stock deducted'', success = True\<rparr> \<and>
              stock_of db' productId = Some (stock p + \<bar>quantity\<bar>) \<and>
              ops = [Log_findUnique oid, Product_findUnique productId,
                     Product_update productId (stock p + \<bar>quantity\<bar>), Log_create oid])"
    by (simp add: deductInventory_fresh_ok [OF assms(5,3) le] stock_of_def exact abs)
  from accepted stored zero deducted show ?thesis by blast
qed

theorem negative_quantity_adds_stock_witness:
  "(-3::int) < 0 \<and> ''p1'' \<noteq> [] \<and>
   products (inventory demo_system) ''p1'' = Some \<lparr>name = ''Flux Capacitor'', stock = 20\<rparr> \<and>
   (0::int) \<le> stock \<lparr>name = ''Flux Capacitor'', stock = 20\<rparr> \<and>
   ''o1'' \<notin> set (idempotencyLog (inventory demo_system)) \<and>
   ''o1'' \<notin> dom (orders demo_system) \<and>
   stock \<lparr>name = ''Flux Capacitor'', stock = 20\<rparr> + \<bar>-3\<bar> \<le> (9007199254740992::int) \<and>
   fst (post_orders \<lparr>b_productId = Some ''p1'', b_quantity = Some (-3), b_gremlin = False\<rparr>
          ''o1'' 100 demo_system) \<noteq>
     Some \<lparr>res_status = 400, res_json = ErrorJson ''Missing productId or quantity''\<rparr> \<and>
   map_option ord_quantity
     (orders (snd (post_orders \<lparr>b_productId = Some ''p1'', b_quantity = Some (-3), b_gremlin = False\<rparr>
                     ''o1'' 100 demo_system)) ''o1'') = Some (-3) \<and>
   fst (post_orders \<lparr>b_productId = Some ''p1'', b_quantity = Some 0, b_gremlin = False\<rparr>
          ''o1'' 100 demo_system) =
     Some \<lparr>res_status = 400, res_json = ErrorJson ''Missing productId or quantity''\<rparr> \<and>
   (case deductInventory ''p1'' (-3) ''o1'' (inventory demo_system) of
      (r, db', ops) \<Rightarrow>
        r = Inr \<lparr>message = ''Stock deducted'', success = True\<rparr> \<and>
        stock_of db' ''p1'' = Some 23 \<and>
        ops = [Log_findUnique ''o1'', Product_findUnique ''p1'',
               Product_update ''p1'' 23, Log_create ''o1''])"
proof -
  let ?p = "\<lparr>name = ''Flux Capacitor'', stock = 20\<rparr>"
  have h1: "(-3::int) < 0" by simp
  have h2: "''p1'' \<noteq> []" by simp
  have h3: "products (inventory demo_system) ''p1'' = Some ?p"
    by (simp add: demo_system_def demo_db_def)
  have h4: "(0::int) \<le> stock ?p" by simp
  have h5: "''o1'' \<notin> set (idempotencyLog (inventory demo_system))"
    by (simp add: demo_system_def demo_db_def)
  have h6: "''o1'' \<notin> dom (orders demo_system)" by (simp add: demo_system_def)
  have h7: "stock ?p + \<bar>-3\<bar> \<le> (9007199254740992::int)" by simp
  show ?thesis
    using h1 h2 h3 h4 h5 h6 h7
      negative_quantity_adds_stock [OF h1 h2 h3 h4 h5 h6 h7, of False 100]
    by simp
qed

text \<open>
  Beyond that range the written stock is not the sum: with 21 in stock and a quantity of
  \<open>- 2^53\<close> the double subtraction rounds \<open>9007199254741013\<close> to the even neighbour
  \<open>9007199254741012\<close>, which is what the update stores.
\<close>

theorem negative_quantity_rounds:
  "(- 9007199254740992 :: int) < 0 \<and>
   stock_of \<lparr>products = [''p1'' \<mapsto> \<lparr>name = ''Flux Capacitor'', stock = 21\<rparr>],
             idempotencyLog = []\<rparr> ''p1'' = Some 21 \<and>
   stock_of
     (fst (snd (deductInventory ''p1'' (- 9007199254740992) ''o1''
                  \<lparr>products = [''p1'' \<mapsto> \<lparr>name = ''Flux Capacitor'', stock = 21\<rparr>],
                   idempotencyLog = []\<rparr>))) ''p1'' = Some 9007199254741012 \<and>
   (21::int) + \<bar>- 9007199254740992\<bar> = 9007199254741013"
  by (simp add: deductInventory_def transaction_def deduct_tx_def stock_of_def Let_def
      js_sub_tie_to_even)

end
